theory Spec2Isabelle
  imports Complex_Main
begin

section \<open>Python values used by the web-UI helpers\<close>

text \<open>
  A Python \<open>str\<close> is a sequence of Unicode code points, so \<open>len\<close> is the length of
  the list. String literals of the source are written with \<open>ustr\<close>.
\<close>

type_synonym pystr = "nat list"

definition ustr :: "string \<Rightarrow> pystr" where
  "ustr s = map of_char s"

text \<open>
  The characters \<open>str.strip()\<close> removes when called without an argument: the code
  points for which \<open>str.isspace\<close> holds.
\<close>

definition py_isspace :: "nat \<Rightarrow> bool" where
  "py_isspace c \<longleftrightarrow>
     (9 \<le> c \<and> c \<le> 13) \<or> (28 \<le> c \<and> c \<le> 32) \<or> c = 133 \<or> c = 160 \<or> c = 5760 \<or>
     (8192 \<le> c \<and> c \<le> 8202) \<or> c = 8232 \<or> c = 8233 \<or> c = 8239 \<or> c = 8287 \<or> c = 12288"

definition py_strip :: "pystr \<Rightarrow> pystr" where
  "py_strip s = rev (dropWhile py_isspace (rev (dropWhile py_isspace s)))"

text \<open>
  The slice \<open>s[0:n]\<close>: a negative \<open>n\<close> counts from the end, and both ends are
  clamped to the sequence (slicing never raises).
\<close>

definition py_slice_to :: "'a list \<Rightarrow> int \<Rightarrow> 'a list" where
  "py_slice_to s n = (if n < 0 then take (nat (int (length s) + n)) s else take (nat n) s)"

section \<open>SSML segments\<close>

text \<open>
  Modelled from the spec: the classes \<open>SSMLBreak\<close> and \<open>SSMLSegment\<close> are declared in
  \<open>modules.ssml_parser.SSMLParser\<close>, which is not part of the file; the spec describes
  an element of a segment list as "a text run or a pause marker". A segment carries its
  text (read by the source as \<open>seg["text"]\<close>) and its attributes, a break its duration.
\<close>

datatype ssml_item =
    SSMLBreak int
  | SSMLSegment pystr "(pystr \<times> pystr) list"

fun is_segment :: "ssml_item \<Rightarrow> bool" where
  "is_segment (SSMLBreak d) = False"
| "is_segment (SSMLSegment t a) = True"

subsection \<open>\<open>segments_length_limit\<close>\<close>

text \<open>
  The \<open>for\<close> loop of \<open>segments_length_limit\<close>, with its two local variables
  \<open>total_len\<close> and \<open>ret_segments\<close> as arguments: a break is appended and the loop
  continues; a segment first adds its text length, and leaves the loop (\<open>break\<close>) when
  the sum exceeds \<open>total_max\<close>.
\<close>

fun segments_loop :: "ssml_item list \<Rightarrow> int \<Rightarrow> int \<Rightarrow> ssml_item list \<Rightarrow> ssml_item list" where
  "segments_loop [] total_max total_len ret_segments = ret_segments"
| "segments_loop (SSMLBreak d # rest) total_max total_len ret_segments =
     segments_loop rest total_max total_len (ret_segments @ [SSMLBreak d])"
| "segments_loop (SSMLSegment t a # rest) total_max total_len ret_segments =
     (let total_len' = total_len + int (length t)
      in if total_len' > total_max then ret_segments
         else segments_loop rest total_max total_len' (ret_segments @ [SSMLSegment t a]))"

definition segments_length_limit :: "ssml_item list \<Rightarrow> int \<Rightarrow> ssml_item list" where
  "segments_length_limit segments total_max = segments_loop segments total_max 0 []"

text \<open>
  The quantity the limit is about: the sum of \<open>len(seg["text"])\<close> over the
  \<open>SSMLSegment\<close> elements of a list. Breaks contribute nothing.
\<close>

fun text_len_sum :: "ssml_item list \<Rightarrow> int" where
  "text_len_sum [] = 0"
| "text_len_sum (SSMLBreak d # rest) = text_len_sum rest"
| "text_len_sum (SSMLSegment t a # rest) = int (length t) + text_len_sum rest"

section \<open>Numbers, dynamic arguments and exceptions\<close>

text \<open>
  A number coming from the UI is a Python \<open>int\<close> or a \<open>float\<close>. A finite float is
  represented by the rational number it denotes; NaN and the infinities are not
  represented.
\<close>

datatype pynum = PyInt int | PyFloat rat

text \<open>Truth value of a number (\<open>x or y\<close> takes \<open>y\<close> when \<open>x\<close> is zero).\<close>

fun num_truthy :: "pynum \<Rightarrow> bool" where
  "num_truthy (PyInt i) = (i \<noteq> 0)"
| "num_truthy (PyFloat r) = (r \<noteq> 0)"

text \<open>\<open>int(x)\<close> on a float truncates toward zero.\<close>

definition float_to_int :: "rat \<Rightarrow> int" where
  "float_to_int r = (if 0 \<le> r then \<lfloor>r\<rfloor> else - \<lfloor>- r\<rfloor>)"

text \<open>
  The exceptions of the model. \<open>KeyboardInterrupt\<close> stands for the exceptions that are
  not subclasses of \<open>Exception\<close>: \<open>except Exception\<close> lets them through, a bare
  \<open>except:\<close> catches them.
\<close>

datatype exn = TypeError | ValueError | AttributeError | Error string | KeyboardInterrupt

fun is_Exception :: "exn \<Rightarrow> bool" where
  "is_Exception KeyboardInterrupt = False"
| "is_Exception e = True"

text \<open>
  A dynamically typed argument such as \<open>batch_size\<close>, and the builtin \<open>int(v)\<close> on
  it: \<open>None\<close> raises \<open>TypeError\<close>, a string that is not an integer literal raises
  \<open>ValueError\<close>. The parser of integer literals belongs to Python, not to this file; it
  is the parameter \<open>int_of_str\<close>.
\<close>

datatype pyval = PyNone | PyNum pynum | PyStr pystr

fun py_int :: "(pystr \<Rightarrow> int option) \<Rightarrow> pyval \<Rightarrow> exn + int" where
  "py_int int_of_str PyNone = Inl TypeError"
| "py_int int_of_str (PyNum (PyInt i)) = Inr i"
| "py_int int_of_str (PyNum (PyFloat r)) = Inr (float_to_int r)"
| "py_int int_of_str (PyStr s) =
     (case int_of_str s of Some i \<Rightarrow> Inr i | None \<Rightarrow> Inl ValueError)"

text \<open>
  \<open>np.clip(x, lo, hi, out=None, dtype=np.float64)\<close> on a scalar. numpy first makes an
  array of \<open>x\<close>: a float, or an integer from \<open>-2^63\<close> to \<open>2^64 - 1\<close>, becomes a
  machine number, which is then cast to \<open>float64\<close>; any other Python integer becomes
  an array of objects, which \<open>np.clip\<close> refuses to cast to \<open>float64\<close>: the call raises
  \<open>UFuncTypeError\<close>, a subclass of \<open>TypeError\<close>. On a machine number the value is
  limited to the interval, \<open>minimum(hi, maximum(x, lo))\<close>; the conversion of an integer
  to a float is exact between the two bounds used by \<open>tts_generate\<close> and never crosses
  them, so the limited value is the one computed on the number itself.
\<close>

fun num_to_float :: "pynum \<Rightarrow> rat" where
  "num_to_float (PyInt i) = of_int i"
| "num_to_float (PyFloat r) = r"

fun f64_convertible :: "pynum \<Rightarrow> bool" where
  "f64_convertible (PyInt i) = (- (2 ^ 63) \<le> i \<and> i < 2 ^ 64)"
| "f64_convertible (PyFloat r) = True"

definition clip_value :: "pynum \<Rightarrow> int \<Rightarrow> int \<Rightarrow> rat" where
  "clip_value x lo hi = min (of_int hi) (max (num_to_float x) (of_int lo))"

definition np_clip :: "pynum \<Rightarrow> int \<Rightarrow> int \<Rightarrow> exn + rat" where
  "np_clip x lo hi =
     (if f64_convertible x then Inr (clip_value x lo hi) else Inl TypeError)"

section \<open>External collaborators\<close>

text \<open>
  The keyword arguments of the call of \<open>synthesize_audio\<close> in \<open>tts_generate\<close>.
\<close>

record 'spk synth_args =
  s_text :: pystr
  s_temperature :: pynum
  s_top_P :: pynum
  s_top_K :: pynum
  s_spk :: 'spk
  s_infer_seed :: int
  s_use_decoder :: bool
  s_prompt1 :: pystr
  s_prompt2 :: pystr
  s_prefix :: pystr
  s_batch_size :: int
  s_end_of_sentence :: pystr
  s_spliter_threshold :: int

text \<open>
  The dictionary returned by \<open>calc_spk_style\<close>, read by the source with
  \<open>params.get(key, default)\<close>: a field is \<open>None\<close> when the key is absent.
\<close>

record 'spk style_params =
  p_spk :: "'spk option"
  p_seed :: "pynum option"
  p_temperature :: "pynum option"
  p_prefix :: "pystr option"
  p_prompt1 :: "pystr option"
  p_prompt2 :: "pystr option"

definition dict_get :: "'a option \<Rightarrow> 'a \<Rightarrow> 'a" where
  "dict_get entry dflt = (case entry of Some v \<Rightarrow> v | None \<Rightarrow> dflt)"

text \<open>
  The object returned by \<open>Speaker.to_json()\<close>, read by \<open>load_spk_info\<close> through the
  attributes \<open>name\<close>, \<open>gender\<close> and \<open>describe\<close>: a field is \<open>None\<close> when the
  attribute is missing, and reading it raises \<open>AttributeError\<close>.
\<close>

record spk_infos =
  info_name :: "pystr option"
  info_gender :: "pystr option"
  info_describe :: "pystr option"

text \<open>
  Every call of another module is recorded, in order, as an event; the events that the
  properties below speak about carry the arguments of the call.
\<close>

datatype 'spk event =
    Ev_parse pystr
  | Ev_synthesize_segments int pystr int "ssml_item list"
  | Ev_combine_audio_segments
  | Ev_audiosegment_to_librosawav
  | Ev_apply_audio_enhance int bool bool
  | Ev_audio_to_int16
  | Ev_calc_spk_style 'spk "pystr option"
  | Ev_text_normalize pystr
  | Ev_from_file
  | Ev_to_json
  | Ev_synthesize_audio "'spk synth_args"
  | Ev_sentence_split int pystr

text \<open>
  The modules the file delegates to, and the configuration \<open>webui_config\<close>. None of
  them is part of the file, so all of them are parameters: every function may raise
  (\<open>Inl\<close>) or return (\<open>Inr\<close>).
  \<^item> \<open>ssml_parse\<close> is \<open>create_ssml_parser().parse\<close>;
  \<^item> \<open>synthesize_segments b e t\<close> is \<open>SynthesizeSegments(batch_size=b, eos=e,
    spliter_thr=t).synthesize_segments\<close>;
  \<^item> \<open>enhance\<close> is \<open>_apply_audio_enhance\<close> of \<open>modules.Enhancer.ResembleEnhance\<close>;
  \<^item> \<open>sentence_split t\<close> is \<open>SentenceSplitter(t).parse\<close>.
\<close>

record ('spk, 'file, 'audio) env =
  int_of_str :: "pystr \<Rightarrow> int option"
  tts_max :: int
  ssml_max :: int
  spliter_threshold :: int
  ssml_parse :: "pystr \<Rightarrow> exn + ssml_item list"
  synthesize_segments :: "int \<Rightarrow> pystr \<Rightarrow> int \<Rightarrow> ssml_item list \<Rightarrow> exn + 'audio"
  combine_audio_segments :: "'audio \<Rightarrow> exn + 'audio"
  frame_rate :: "'audio \<Rightarrow> int"
  audiosegment_to_librosawav :: "'audio \<Rightarrow> exn + 'audio"
  enhance :: "'audio \<Rightarrow> int \<Rightarrow> bool \<Rightarrow> bool \<Rightarrow> exn + ('audio \<times> int)"
  audio_to_int16 :: "'audio \<Rightarrow> exn + 'audio"
  calc_spk_style :: "'spk \<Rightarrow> pystr option \<Rightarrow> exn + 'spk style_params"
  text_normalize :: "pystr \<Rightarrow> exn + pystr"
  speaker_from_file :: "'file \<Rightarrow> exn + 'spk"
  speaker_to_json :: "'spk \<Rightarrow> exn + spk_infos"
  synthesize_audio :: "'spk synth_args \<Rightarrow> exn + (int \<times> 'audio)"
  sentence_split :: "int \<Rightarrow> pystr \<Rightarrow> exn + pystr list"

section \<open>Running a function: events and outcome\<close>

text \<open>
  A run of a function is the list of events it caused and its outcome: an exception
  that leaves the function, or the returned value.
\<close>

type_synonym ('spk, 'a) run = "'spk event list \<times> (exn + 'a)"

definition returns :: "'a \<Rightarrow> ('spk, 'a) run" where
  "returns v = ([], Inr v)"

definition calls :: "'spk event \<Rightarrow> exn + 'a \<Rightarrow> ('spk, 'a) run" where
  "calls ev outcome = ([ev], outcome)"

definition and_then :: "('spk, 'a) run \<Rightarrow> ('a \<Rightarrow> ('spk, 'b) run) \<Rightarrow> ('spk, 'b) run" where
  "and_then m f =
     (case m of
        (evs, Inl e) \<Rightarrow> (evs, Inl e)
      | (evs, Inr v) \<Rightarrow> (case f v of (evs', outcome) \<Rightarrow> (evs @ evs', outcome)))"

text \<open>\<open>try: v = body except Exception: v = dflt\<close>\<close>

definition try_except_Exception :: "exn + 'a \<Rightarrow> 'a \<Rightarrow> exn + 'a" where
  "try_except_Exception body dflt =
     (case body of
        Inr v \<Rightarrow> Inr v
      | Inl e \<Rightarrow> if is_Exception e then Inr dflt else Inl e)"

text \<open>\<open>try: return body except: return dflt\<close> (a bare \<open>except\<close>)\<close>

definition try_except_all :: "('spk, 'a) run \<Rightarrow> 'a \<Rightarrow> ('spk, 'a) run" where
  "try_except_all body dflt =
     (case body of
        (evs, Inr v) \<Rightarrow> (evs, Inr v)
      | (evs, Inl e) \<Rightarrow> (evs, Inr dflt))"

definition getattr :: "'a option \<Rightarrow> ('spk, 'a) run" where
  "getattr field = (case field of Some v \<Rightarrow> returns v | None \<Rightarrow> ([], Inl AttributeError))"

text \<open>A comprehension \<open>[f(x) for x in xs]\<close> whose \<open>f\<close> may raise.\<close>

fun for_each :: "('a \<Rightarrow> ('spk, 'b) run) \<Rightarrow> 'a list \<Rightarrow> ('spk, 'b list) run" where
  "for_each f [] = returns []"
| "for_each f (x # xs) =
     and_then (f x) (\<lambda>y. and_then (for_each f xs) (\<lambda>ys. returns (y # ys)))"

section \<open>The functions of \<open>webui_utils\<close>\<close>

text \<open>
  The decorators \<open>torch.inference_mode()\<close> and \<open>spaces.GPU(duration=120)\<close> wrap a
  function without changing its arguments or its result, and the parameter
  \<open>progress\<close> is never read; they do not appear below.
\<close>

subsection \<open>\<open>load_spk_info\<close>\<close>

text \<open>
  The f-string of \<open>load_spk_info\<close>, before \<open>.strip()\<close>: a newline, the three lines,
  and a last line of four spaces.
\<close>

definition spk_info_text :: "pystr \<Rightarrow> pystr \<Rightarrow> pystr \<Rightarrow> pystr" where
  "spk_info_text n g d =
     [10] @ ustr ''- name: '' @ n @ [10] @ ustr ''- gender: '' @ g @ [10] @
     ustr ''- describe: '' @ d @ [10] @ ustr ''    ''"

definition load_spk_info ::
  "('spk, 'file, 'audio) env \<Rightarrow> 'file option \<Rightarrow> ('spk, pystr) run" where
  "load_spk_info env file =
     (case file of
        None \<Rightarrow> returns (ustr ''empty'')
      | Some f \<Rightarrow>
          try_except_all
            (and_then (calls Ev_from_file (speaker_from_file env f)) (\<lambda>spk.
             and_then (calls Ev_to_json (speaker_to_json env spk)) (\<lambda>infos.
             and_then (getattr (info_name infos)) (\<lambda>n.
             and_then (getattr (info_gender infos)) (\<lambda>g.
             and_then (getattr (info_describe infos)) (\<lambda>d.
             returns (py_strip (spk_info_text n g d))))))))
            (ustr ''load failed''))"

text \<open>
  Loading the speaker raises: \<open>Speaker.from_file\<close> raises, or \<open>to_json\<close> raises, or
  one of the three attributes formatted by the f-string cannot be read.
\<close>

definition loading_raises :: "('spk, 'file, 'audio) env \<Rightarrow> 'file \<Rightarrow> bool" where
  "loading_raises env f =
     (case speaker_from_file env f of
        Inl e \<Rightarrow> True
      | Inr spk \<Rightarrow>
          (case speaker_to_json env spk of
             Inl e \<Rightarrow> True
           | Inr infos \<Rightarrow>
               info_name infos = None \<or> info_gender infos = None \<or> info_describe infos = None))"

subsection \<open>\<open>apply_audio_enhance\<close>\<close>

definition apply_audio_enhance ::
  "('spk, 'file, 'audio) env \<Rightarrow> 'audio \<Rightarrow> int \<Rightarrow> bool \<Rightarrow> bool \<Rightarrow> ('spk, 'audio \<times> int) run" where
  "apply_audio_enhance env audio_data sr enable_denoise enable_enhance =
     calls (Ev_apply_audio_enhance sr enable_denoise enable_enhance)
       (enhance env audio_data sr enable_denoise enable_enhance)"

subsection \<open>\<open>synthesize_ssml\<close>\<close>

text \<open>The default of the parameter \<open>batch_size\<close> in the signature of each function.\<close>

definition synthesize_ssml_default_batch_size :: int where
  "synthesize_ssml_default_batch_size = 4"

definition tts_generate_default_batch_size :: int where
  "tts_generate_default_batch_size = 4"

definition synthesize_ssml ::
  "('spk, 'file, 'audio) env \<Rightarrow> pystr \<Rightarrow> pyval \<Rightarrow> bool \<Rightarrow> bool \<Rightarrow> pystr \<Rightarrow> int \<Rightarrow>
   ('spk, (int \<times> 'audio) option) run" where
  "synthesize_ssml env ssml batch_size enable_enhance enable_denoise eos spliter_thr =
     and_then ([], try_except_Exception (py_int (int_of_str env) batch_size) 8) (\<lambda>batch_size.
     let ssml = py_strip ssml in
     if ssml = [] then returns None
     else
       and_then (calls (Ev_parse ssml) (ssml_parse env ssml)) (\<lambda>segments.
       let max_len = ssml_max env;
           segments = segments_length_limit segments max_len
       in
       if length segments = 0 then returns None
       else
         and_then (calls (Ev_synthesize_segments batch_size eos spliter_thr segments)
                     (synthesize_segments env batch_size eos spliter_thr segments)) (\<lambda>audio_segments.
         and_then (calls Ev_combine_audio_segments
                     (combine_audio_segments env audio_segments)) (\<lambda>combined_audio.
         let sr = frame_rate env combined_audio in
         and_then (calls Ev_audiosegment_to_librosawav
                     (audiosegment_to_librosawav env combined_audio)) (\<lambda>wav.
         and_then (apply_audio_enhance env wav sr enable_denoise enable_enhance) (\<lambda>(audio_data, sr).
         and_then (calls Ev_audio_to_int16 (audio_to_int16 env audio_data)) (\<lambda>audio_data.
         returns (Some (sr, audio_data)))))))))"

subsection \<open>\<open>tts_generate\<close>\<close>

text \<open>
  The arguments of \<open>tts_generate\<close>, under the names of the signature. \<open>spk_file\<close> is
  \<open>None\<close> or an uploaded file (which is true in \<open>if spk_file\<close>).
\<close>

record ('spk, 'file) tts_args =
  a_text :: pystr
  a_temperature :: pynum
  a_top_p :: pynum
  a_top_k :: pynum
  a_spk :: 'spk
  a_infer_seed :: pynum
  a_use_decoder :: bool
  a_prompt1 :: pystr
  a_prompt2 :: pystr
  a_prefix :: pystr
  a_style :: pystr
  a_disable_normalize :: bool
  a_batch_size :: pyval
  a_enable_enhance :: bool
  a_enable_denoise :: bool
  a_spk_file :: "'file option"
  a_spliter_thr :: int
  a_eos :: pystr

text \<open>\<open>x or y\<close> on numbers and on strings.\<close>

definition num_or :: "pynum \<Rightarrow> pynum \<Rightarrow> pynum" where
  "num_or x y = (if num_truthy x then x else y)"

definition str_or :: "pystr \<Rightarrow> pystr \<Rightarrow> pystr" where
  "str_or x y = (if x \<noteq> [] then x else y)"

definition tts_generate ::
  "('spk, 'file, 'audio) env \<Rightarrow> ('spk, 'file) tts_args \<Rightarrow> ('spk, (int \<times> 'audio) option) run" where
  "tts_generate env a =
     and_then ([], try_except_Exception (py_int (int_of_str env) (a_batch_size a)) 4) (\<lambda>batch_size.
     let max_len = tts_max env;
         text = py_slice_to (py_strip (a_text a)) max_len
     in
     if text = [] then returns None
     else
       let style = (if a_style a = ustr ''*auto'' then None else Some (a_style a));
           top_k = (case a_top_k a of PyFloat r \<Rightarrow> PyInt (float_to_int r) | PyInt i \<Rightarrow> PyInt i)
       in
       and_then (calls (Ev_calc_spk_style (a_spk a) style) (calc_spk_style env (a_spk a) style)) (\<lambda>params.
       let spk = dict_get (p_spk params) (a_spk a);
           infer_seed = num_or (a_infer_seed a) (dict_get (p_seed params) (a_infer_seed a));
           temperature = num_or (a_temperature a) (dict_get (p_temperature params) (a_temperature a));
           prefix = str_or (a_prefix a) (dict_get (p_prefix params) (a_prefix a));
           prompt1 = str_or (a_prompt1 a) (dict_get (p_prompt1 params) []);
           prompt2 = str_or (a_prompt2 a) (dict_get (p_prompt2 params) [])
       in
       and_then ([], np_clip infer_seed (- 1) (2 ^ 32 - 1)) (\<lambda>infer_seed.
       let infer_seed = float_to_int infer_seed in
       and_then (if \<not> a_disable_normalize a
                 then calls (Ev_text_normalize text) (text_normalize env text)
                 else returns text) (\<lambda>text.
       and_then (case a_spk_file a of
                   Some f \<Rightarrow> calls Ev_from_file (speaker_from_file env f)
                 | None \<Rightarrow> returns spk) (\<lambda>spk.
       let args = \<lparr> s_text = text, s_temperature = temperature, s_top_P = a_top_p a,
                    s_top_K = top_k, s_spk = spk, s_infer_seed = infer_seed,
                    s_use_decoder = a_use_decoder a, s_prompt1 = prompt1, s_prompt2 = prompt2,
                    s_prefix = prefix, s_batch_size = batch_size,
                    s_end_of_sentence = a_eos a, s_spliter_threshold = a_spliter_thr a \<rparr>
       in
       and_then (calls (Ev_synthesize_audio args) (synthesize_audio env args)) (\<lambda>(sample_rate, audio_data).
       and_then (apply_audio_enhance env audio_data sample_rate
                   (a_enable_denoise a) (a_enable_enhance a)) (\<lambda>(audio_data, sample_rate).
       and_then (calls Ev_audio_to_int16 (audio_to_int16 env audio_data)) (\<lambda>audio_data.
       returns (Some (sample_rate, audio_data))))))))))"

subsection \<open>\<open>split_long_text\<close>\<close>

text \<open>
  A row \<open>[i, text, len(text)]\<close> of the returned table, and the loop over
  \<open>enumerate(sentences)\<close> that appends one row per sentence to \<open>data\<close>.
\<close>

type_synonym row = "int \<times> pystr \<times> int"

fun rows_loop :: "(nat \<times> pystr) list \<Rightarrow> row list \<Rightarrow> row list" where
  "rows_loop [] data = data"
| "rows_loop ((i, text) # rest) data = rows_loop rest (data @ [(int i, text, int (length text))])"

definition split_long_text ::
  "('spk, 'file, 'audio) env \<Rightarrow> pystr \<Rightarrow> ('spk, row list) run" where
  "split_long_text env long_text_input =
     (let threshold = spliter_threshold env in
      and_then (calls (Ev_sentence_split threshold long_text_input)
                  (sentence_split env threshold long_text_input)) (\<lambda>sentences.
      and_then (for_each (\<lambda>s. calls (Ev_text_normalize s) (text_normalize env s)) sentences) (\<lambda>sentences.
      returns (rows_loop (enumerate 0 sentences) []))))"

section \<open>A concrete environment\<close>

text \<open>
  An environment and an argument record on which the functions can be evaluated: the
  parser returns the whole input as one segment, the style lookup returns a dictionary
  without keys, loading a speaker fails for file \<open>0\<close>, and the audio functions return
  their argument. Speakers, files and audio buffers are numbers.
\<close>

definition example_env :: "(nat, nat, nat) env" where
  "example_env =
     \<lparr> int_of_str = (\<lambda>s. None),
       tts_max = 1000,
       ssml_max = 1000,
       spliter_threshold = 100,
       ssml_parse = (\<lambda>s. Inr [SSMLSegment s []]),
       synthesize_segments = (\<lambda>b e t segs. Inr 1),
       combine_audio_segments = (\<lambda>x. Inr x),
       frame_rate = (\<lambda>x. 24000),
       audiosegment_to_librosawav = (\<lambda>x. Inr x),
       enhance = (\<lambda>x sr dn en. Inr (x, sr)),
       audio_to_int16 = (\<lambda>x. Inr x),
       calc_spk_style = (\<lambda>spk style. Inr \<lparr> p_spk = None, p_seed = None,
          p_temperature = None, p_prefix = None, p_prompt1 = None, p_prompt2 = None \<rparr>),
       text_normalize = (\<lambda>s. Inr s),
       speaker_from_file = (\<lambda>f. if f = 0 then Inl (Error ''no such file'') else Inr f),
       speaker_to_json = (\<lambda>spk. Inr \<lparr> info_name = Some (ustr ''Bob''),
          info_gender = Some (ustr ''*''), info_describe = Some (ustr ''a voice'') \<rparr>),
       synthesize_audio = (\<lambda>args. Inr (24000, 1)),
       sentence_split = (\<lambda>t s. Inr [s, s @ s]) \<rparr>"

text \<open>The defaults of the signature of \<open>tts_generate\<close>, with the text \<open>hi\<close>.\<close>

definition example_args :: "(nat, nat) tts_args" where
  "example_args =
     \<lparr> a_text = ustr ''hi'',
       a_temperature = PyFloat (3 / 10),
       a_top_p = PyFloat (7 / 10),
       a_top_k = PyInt 20,
       a_spk = 7,
       a_infer_seed = PyInt (- 1),
       a_use_decoder = True,
       a_prompt1 = [],
       a_prompt2 = [],
       a_prefix = [],
       a_style = [],
       a_disable_normalize = False,
       a_batch_size = PyNum (PyInt 4),
       a_enable_enhance = False,
       a_enable_denoise = False,
       a_spk_file = None,
       a_spliter_thr = 100,
       a_eos = ustr ''[uv_break]'' \<rparr>"

text \<open>
  The call of \<open>synthesize_audio\<close> that \<open>tts_generate\<close> makes on \<open>example_args\<close> when
  the seed is \<open>seed\<close> and the temperature is \<open>temperature\<close>.
\<close>

definition example_call :: "int \<Rightarrow> pynum \<Rightarrow> nat synth_args" where
  "example_call seed temperature =
     \<lparr> s_text = ustr ''hi'', s_temperature = temperature, s_top_P = PyFloat (7 / 10),
       s_top_K = PyInt 20, s_spk = 7, s_infer_seed = seed, s_use_decoder = True,
       s_prompt1 = [], s_prompt2 = [], s_prefix = [], s_batch_size = 4,
       s_end_of_sentence = ustr ''[uv_break]'', s_spliter_threshold = 100 \<rparr>"

section \<open>Properties of \<open>segments_length_limit\<close>\<close>

lemma text_len_sum_append:
  "text_len_sum (xs @ ys) = text_len_sum xs + text_len_sum ys"
  by (induction xs rule: text_len_sum.induct) simp_all

lemma text_len_sum_nonneg: "0 \<le> text_len_sum xs"
  by (induction xs rule: text_len_sum.induct) simp_all

lemma segments_loop_bound:
  "text_len_sum ret = total_len \<Longrightarrow> total_len \<le> total_max \<Longrightarrow>
   text_len_sum (segments_loop segs total_max total_len ret) \<le> total_max"
proof (induction segs total_max total_len ret rule: segments_loop.induct)
  case (1 total_max total_len ret_segments)
  then show ?case by simp
next
  case (2 d rest total_max total_len ret_segments)
  then show ?case by (simp add: text_len_sum_append)
next
  case (3 t a rest total_max total_len ret_segments)
  show ?case
  proof (cases "total_len + int (length t) > total_max")
    case True
    with 3 show ?thesis by simp
  next
    case False
    with 3 show ?thesis by (simp add: text_len_sum_append Let_def)
  qed
qed

text \<open>
  C1. For every list of SSML segments and every non-negative \<open>total_max\<close>, the sum of
  the text lengths of the \<open>SSMLSegment\<close> elements of the list returned by
  \<open>segments_length_limit\<close> is at most \<open>total_max\<close>.
\<close>

theorem segments_length_limit_bound:
  "0 \<le> total_max \<Longrightarrow> text_len_sum (segments_length_limit segments total_max) \<le> total_max"
  unfolding segments_length_limit_def
  by (rule segments_loop_bound) simp_all

theorem segments_length_limit_bound_witness:
  "(0::int) \<le> 4 \<and>
   text_len_sum (segments_length_limit
     [SSMLSegment (ustr ''ab'') [], SSMLBreak 500, SSMLSegment (ustr ''cde'') [],
      SSMLSegment (ustr ''f'') []] 4) \<le> 4"
  using segments_length_limit_bound
    [of 4 "[SSMLSegment (ustr ''ab'') [], SSMLBreak 500, SSMLSegment (ustr ''cde'') [],
            SSMLSegment (ustr ''f'') []]"]
  by simp

lemma segments_loop_prefix:
  "\<exists>k\<le>length segs.
     segments_loop segs total_max total_len ret = ret @ take k segs \<and>
     (\<forall>j<k. is_segment (segs ! j) \<longrightarrow> total_len + text_len_sum (take (Suc j) segs) \<le> total_max) \<and>
     (k < length segs \<longrightarrow>
        is_segment (segs ! k) \<and> total_max < total_len + text_len_sum (take (Suc k) segs))"
proof (induction segs total_max total_len ret rule: segments_loop.induct)
  case (1 total_max total_len ret_segments)
  show ?case by simp
next
  case (2 d rest total_max total_len ret_segments)
  then obtain k where k: "k \<le> length rest"
    "segments_loop rest total_max total_len (ret_segments @ [SSMLBreak d]) =
       (ret_segments @ [SSMLBreak d]) @ take k rest"
    "\<forall>j<k. is_segment (rest ! j) \<longrightarrow> total_len + text_len_sum (take (Suc j) rest) \<le> total_max"
    "k < length rest \<longrightarrow>
       is_segment (rest ! k) \<and> total_max < total_len + text_len_sum (take (Suc k) rest)"
    by blast
  have "\<forall>j<Suc k. is_segment ((SSMLBreak d # rest) ! j) \<longrightarrow>
          total_len + text_len_sum (take (Suc j) (SSMLBreak d # rest)) \<le> total_max"
    using k(3) by (auto simp: less_Suc_eq_0_disj)
  with k show ?case
    by (intro exI[of _ "Suc k"]) simp
next
  case (3 t a rest total_max total_len ret_segments)
  show ?case
  proof (cases "total_len + int (length t) > total_max")
    case True
    then show ?thesis by (intro exI[of _ 0]) simp
  next
    case False
    with 3 obtain k where k: "k \<le> length rest"
      "segments_loop rest total_max (total_len + int (length t)) (ret_segments @ [SSMLSegment t a]) =
         (ret_segments @ [SSMLSegment t a]) @ take k rest"
      "\<forall>j<k. is_segment (rest ! j) \<longrightarrow>
         total_len + int (length t) + text_len_sum (take (Suc j) rest) \<le> total_max"
      "k < length rest \<longrightarrow>
         is_segment (rest ! k) \<and>
         total_max < total_len + int (length t) + text_len_sum (take (Suc k) rest)"
      by (auto simp: Let_def)
    have "\<forall>j<Suc k. is_segment ((SSMLSegment t a # rest) ! j) \<longrightarrow>
            total_len + text_len_sum (take (Suc j) (SSMLSegment t a # rest)) \<le> total_max"
      using k(3) False by (auto simp: less_Suc_eq_0_disj add.assoc)
    with k False show ?thesis
      by (intro exI[of _ "Suc k"]) (simp add: add.assoc)
  qed
qed

text \<open>
  C8. The list returned by \<open>segments_length_limit\<close> is a prefix of the input: some
  \<open>k\<close> elements, in their order and unchanged. Only segments count toward the limit
  (\<open>text_len_sum\<close> ignores breaks): every kept segment is within the limit, and when
  something is dropped, the first dropped element is a segment whose text takes the sum
  over the limit; everything after it, breaks included, is dropped with it.
\<close>

theorem segments_length_limit_prefix:
  "\<exists>k\<le>length segments.
     segments_length_limit segments total_max = take k segments \<and>
     (\<forall>j<k. is_segment (segments ! j) \<longrightarrow> text_len_sum (take (Suc j) segments) \<le> total_max) \<and>
     (k < length segments \<longrightarrow>
        is_segment (segments ! k) \<and> total_max < text_len_sum (take (Suc k) segments))"
  using segments_loop_prefix [of segments total_max 0 "[]"]
  by (simp add: segments_length_limit_def)

theorem segments_length_limit_prefix_witness:
  "let xs = [SSMLSegment (ustr ''ab'') [], SSMLBreak 500, SSMLSegment (ustr ''cde'') [],
             SSMLBreak 20, SSMLSegment (ustr ''f'') []]
   in \<exists>k. k = 2 \<and> segments_length_limit xs 4 = take k xs \<and>
        is_segment (xs ! 0) \<and> text_len_sum (take (Suc 0) xs) \<le> 4 \<and>
        k < length xs \<and> is_segment (xs ! k) \<and> 4 < text_len_sum (take (Suc k) xs)"
proof -
  let ?xs = "[SSMLSegment (ustr ''ab'') [], SSMLBreak 500, SSMLSegment (ustr ''cde'') [],
              SSMLBreak 20, SSMLSegment (ustr ''f'') []]"
  obtain k where k: "k \<le> length ?xs" "segments_length_limit ?xs 4 = take k ?xs"
      "k < length ?xs \<longrightarrow> is_segment (?xs ! k) \<and> 4 < text_len_sum (take (Suc k) ?xs)"
    using segments_length_limit_prefix [of ?xs 4] by blast
  have ev: "segments_length_limit ?xs 4 = [SSMLSegment (ustr ''ab'') [], SSMLBreak 500]"
    by (simp add: segments_length_limit_def ustr_def)
  have "length (take k ?xs) = 2"
    unfolding k(2) [symmetric] ev by simp
  with k(1) have k2: "k = 2" by simp
  have "is_segment (?xs ! 0) \<and> text_len_sum (take (Suc 0) ?xs) \<le> 4"
    by (simp add: ustr_def)
  with k k2 show ?thesis
    unfolding Let_def by (intro exI[of _ k]) simp
qed

section \<open>Runs: events and outcomes\<close>

lemma and_then_returns: "and_then (returns v) f = f v"
  by (simp add: and_then_def returns_def split: prod.splits)

lemma fst_and_then_mem:
  "ev \<in> set (fst (and_then m f)) \<longleftrightarrow>
     ev \<in> set (fst m) \<or> (\<exists>v. snd m = Inr v \<and> ev \<in> set (fst (f v)))"
  by (cases m; cases "snd m") (auto simp: and_then_def split: prod.splits sum.splits)

lemma snd_and_then:
  "snd (and_then m f) = (case snd m of Inl e \<Rightarrow> Inl e | Inr v \<Rightarrow> snd (f v))"
  by (cases m; cases "snd m") (auto simp: and_then_def split: prod.splits sum.splits)

lemma fst_returns: "fst (returns v) = []" by (simp add: returns_def)

lemma snd_returns: "snd (returns v) = Inr v" by (simp add: returns_def)

lemma fst_calls: "fst (calls ev r) = [ev]" by (simp add: calls_def)

lemma snd_calls: "snd (calls ev r) = r" by (simp add: calls_def)

lemmas run_simps = fst_and_then_mem snd_and_then fst_returns snd_returns fst_calls snd_calls

lemma and_then_calls_Inr:
  "and_then (calls ev (Inr v)) f = (case f v of (evs, outcome) \<Rightarrow> (ev # evs, outcome))"
  by (simp add: and_then_def calls_def)

lemma and_then_Pair_Inr:
  "and_then (evs, Inr v) f = (case f v of (evs', outcome) \<Rightarrow> (evs @ evs', outcome))"
  by (simp add: and_then_def)

text \<open>\<open>int(batch_size)\<close> raises only subclasses of \<open>Exception\<close>, so the handler always runs.\<close>

lemma py_int_is_Exception: "py_int p v = Inl e \<Longrightarrow> is_Exception e"
  by (induction p v rule: py_int.induct) (auto split: option.splits)

lemma try_py_int: "try_except_Exception (py_int p v) d =
   Inr (case py_int p v of Inr n \<Rightarrow> n | Inl e \<Rightarrow> d)"
  by (auto simp: try_except_Exception_def split: sum.splits dest: py_int_is_Exception)

section \<open>Strings\<close>

lemma rev_dropWhile_takeWhile:
  "rev (dropWhile P (rev xs)) @ rev (takeWhile P (rev xs)) = xs"
proof -
  have "rev (takeWhile P (rev xs) @ dropWhile P (rev xs)) = rev (rev xs)"
    by (simp only: takeWhile_dropWhile_id)
  then show ?thesis
    unfolding rev_append rev_rev_ident .
qed

lemma py_strip_suffix:
  "py_strip s @ rev (takeWhile py_isspace (rev (dropWhile py_isspace s))) = dropWhile py_isspace s"
  unfolding py_strip_def by (rule rev_dropWhile_takeWhile)

lemma py_strip_decomp:
  "\<exists>l r. s = l @ py_strip s @ r \<and> list_all py_isspace l \<and> list_all py_isspace r"
proof -
  let ?l = "takeWhile py_isspace s"
  let ?r = "rev (takeWhile py_isspace (rev (dropWhile py_isspace s)))"
  have "s = ?l @ py_strip s @ ?r"
    by (simp only: py_strip_suffix takeWhile_dropWhile_id)
  moreover have "list_all py_isspace ?l"
    by (auto simp: list_all_iff dest: set_takeWhileD)
  moreover have "list_all py_isspace ?r"
    by (auto simp: list_all_iff dest: set_takeWhileD)
  ultimately show ?thesis by blast
qed

lemma py_strip_ends:
  assumes "py_strip s \<noteq> []"
  shows "\<not> py_isspace (hd (py_strip s)) \<and> \<not> py_isspace (last (py_strip s))"
proof -
  define d where "d = dropWhile py_isspace s"
  define e where "e = dropWhile py_isspace (rev d)"
  have strip: "py_strip s = rev e"
    by (simp only: py_strip_def d_def e_def)
  from assms have e: "e \<noteq> []"
    by (simp only: strip rev_is_Nil_conv not_False_eq_True)
  have "\<not> py_isspace (hd e)"
    using e unfolding e_def by (rule hd_dropWhile)
  moreover have "last (rev e) = hd e"
    by (simp only: last_rev)
  ultimately have last: "\<not> py_isspace (last (py_strip s))"
    by (simp add: strip)
  have "d \<noteq> []"
  proof
    assume "d = []"
    then have "e = []" by (simp add: e_def)
    with e show False by contradiction
  qed
  then have hd_d: "\<not> py_isspace (hd d)"
    unfolding d_def by (rule hd_dropWhile)
  have "rev e @ rev (takeWhile py_isspace (rev d)) = d"
    unfolding e_def by (rule rev_dropWhile_takeWhile)
  then have "d = rev e @ rev (takeWhile py_isspace (rev d))"
    by (rule sym)
  then have "hd d = hd (rev e @ rev (takeWhile py_isspace (rev d)))"
    by (rule arg_cong)
  also have "\<dots> = hd (rev e)"
    using e by (simp only: hd_append2 rev_is_Nil_conv not_False_eq_True)
  finally have "hd d = hd (py_strip s)"
    by (simp only: strip)
  with hd_d last show ?thesis by (simp only: simp_thms)
qed

lemma py_slice_to_length:
  "0 \<le> n \<Longrightarrow> int (length (py_slice_to s n)) \<le> n"
  by (simp add: py_slice_to_def)

lemma py_slice_to_Nil: "py_slice_to [] n = []"
  by (simp add: py_slice_to_def)

section \<open>The seed\<close>










lemma num_or_same: "num_or x x = x"
  by (simp add: num_or_def)

lemma str_or_same: "str_or x x = x"
  by (simp add: str_or_def)

section \<open>What \<open>tts_generate\<close> passes on\<close>

text \<open>
  Every call of \<open>synthesize_audio\<close> and of \<open>text_normalize\<close> that a run of
  \<open>tts_generate\<close> records, described by the arguments of \<open>tts_generate\<close> and the
  dictionary \<open>calc_spk_style\<close> returned.
\<close>

lemma tts_generate_synth_event:
  assumes "Ev_synthesize_audio sa \<in> set (fst (tts_generate env a))"
  shows "\<exists>params. calc_spk_style env (a_spk a)
            (if a_style a = ustr ''*auto'' then None else Some (a_style a)) = Inr params \<and>
     f64_convertible (num_or (a_infer_seed a) (dict_get (p_seed params) (a_infer_seed a))) \<and>
     s_infer_seed sa = float_to_int (clip_value
        (num_or (a_infer_seed a) (dict_get (p_seed params) (a_infer_seed a))) (- 1) (2 ^ 32 - 1)) \<and>
     s_temperature sa = num_or (a_temperature a) (dict_get (p_temperature params) (a_temperature a)) \<and>
     s_prefix sa = str_or (a_prefix a) (dict_get (p_prefix params) (a_prefix a)) \<and>
     s_prompt1 sa = str_or (a_prompt1 a) (dict_get (p_prompt1 params) []) \<and>
     s_prompt2 sa = str_or (a_prompt2 a) (dict_get (p_prompt2 params) []) \<and>
     s_batch_size sa = (case py_int (int_of_str env) (a_batch_size a) of Inr n \<Rightarrow> n | Inl e \<Rightarrow> 4) \<and>
     py_slice_to (py_strip (a_text a)) (tts_max env) \<noteq> [] \<and>
     (a_disable_normalize a \<longrightarrow> s_text sa = py_slice_to (py_strip (a_text a)) (tts_max env))"
  using assms
  unfolding tts_generate_def try_py_int
  by (auto simp: run_simps Let_def apply_audio_enhance_def np_clip_def
      split: if_splits option.splits prod.splits)

lemma tts_generate_normalize_event:
  assumes "Ev_text_normalize t \<in> set (fst (tts_generate env a))"
  shows "t = py_slice_to (py_strip (a_text a)) (tts_max env) \<and> \<not> a_disable_normalize a"
  using assms
  unfolding tts_generate_def try_py_int
  by (auto simp: run_simps Let_def apply_audio_enhance_def np_clip_def
      split: if_splits option.splits prod.splits)

lemma tts_generate_synth_text:
  assumes "Ev_synthesize_audio sa \<in> set (fst (tts_generate env a))"
  shows "if a_disable_normalize a
         then s_text sa = py_slice_to (py_strip (a_text a)) (tts_max env)
         else text_normalize env (py_slice_to (py_strip (a_text a)) (tts_max env)) = Inr (s_text sa)"
  using assms
  unfolding tts_generate_def try_py_int
  by (auto simp: run_simps Let_def apply_audio_enhance_def np_clip_def
      split: if_splits option.splits prod.splits)

lemma tts_generate_result:
  assumes "snd (tts_generate env a) = Inr (Some (sr, buf))"
  shows "\<exists>x. audio_to_int16 env x = Inr buf"
  using assms
  unfolding tts_generate_def try_py_int
  by (auto simp: run_simps Let_def apply_audio_enhance_def np_clip_def
      split: if_splits option.splits prod.splits sum.splits)

text \<open>
  A seed that numpy does not convert: \<open>np.clip\<close> raises right after \<open>calc_spk_style\<close>,
  and \<open>tts_generate\<close> ends with the exception, before \<open>text_normalize\<close> and
  \<open>synthesize_audio\<close>.
\<close>

lemma tts_generate_seed_raises:
  assumes "py_slice_to (py_strip (a_text a)) (tts_max env) \<noteq> []"
      and "calc_spk_style env (a_spk a)
             (if a_style a = ustr ''*auto'' then None else Some (a_style a)) = Inr params"
      and "\<not> f64_convertible (num_or (a_infer_seed a) (dict_get (p_seed params) (a_infer_seed a)))"
  shows "tts_generate env a =
           ([Ev_calc_spk_style (a_spk a)
               (if a_style a = ustr ''*auto'' then None else Some (a_style a))], Inl TypeError)"
  using assms
  unfolding tts_generate_def try_py_int
  by (simp add: Let_def np_clip_def and_then_def calls_def)

lemma tts_generate_blank:
  "py_strip (a_text a) = [] \<Longrightarrow> tts_generate env a = ([], Inr None)"
  unfolding tts_generate_def try_py_int
  by (simp add: py_slice_to_Nil and_then_def returns_def)

section \<open>What \<open>synthesize_ssml\<close> passes on\<close>

lemma synthesize_ssml_segments_event:
  assumes "Ev_synthesize_segments b e t segs \<in> set (fst (synthesize_ssml env ssml batch_size ee ed eos thr))"
  shows "b = (case py_int (int_of_str env) batch_size of Inr n \<Rightarrow> n | Inl x \<Rightarrow> 8)"
  using assms
  unfolding synthesize_ssml_def try_py_int
  by (auto simp: run_simps Let_def apply_audio_enhance_def split: if_splits option.splits prod.splits)

lemma synthesize_ssml_result:
  assumes "snd (synthesize_ssml env ssml batch_size ee ed eos thr) = Inr (Some (sr, buf))"
  shows "\<exists>x. audio_to_int16 env x = Inr buf"
  using assms
  unfolding synthesize_ssml_def try_py_int
  by (auto simp: run_simps Let_def apply_audio_enhance_def split: if_splits option.splits prod.splits sum.splits)

lemma synthesize_ssml_blank:
  "py_strip ssml = [] \<Longrightarrow> synthesize_ssml env ssml batch_size ee ed eos thr = ([], Inr None)"
  unfolding synthesize_ssml_def try_py_int
  by (simp add: and_then_def returns_def)

section \<open>Evaluation on the concrete environment\<close>

lemma py_strip_hi: "py_strip (ustr ''hi'') = ustr ''hi''"
  by (simp add: py_strip_def py_isspace_def ustr_def)

lemma py_strip_hello: "py_strip (ustr ''  hello  '') = ustr ''hello''"
  by (simp add: py_strip_def py_isspace_def ustr_def)

lemma py_strip_hello_plain: "py_strip (ustr ''hello'') = ustr ''hello''"
  by (simp add: py_strip_def py_isspace_def ustr_def)

lemma py_slice_to_hello: "py_slice_to (ustr ''hello'') 3 = ustr ''hel''"
  by (simp add: py_slice_to_def ustr_def)

lemma py_strip_blank: "py_strip [32, 10, 9] = []"
  by (simp add: py_strip_def py_isspace_def)

lemma seed_values:
  "float_to_int (clip_value (PyInt (- 5)) (- 1) 4294967295) = - 1"
  "float_to_int (clip_value (PyInt 1099511627776) (- 1) 4294967295) = 4294967295"
  "float_to_int (clip_value (PyInt 42) (- 1) 4294967295) = 42"
  "float_to_int (clip_value (PyInt 0) (- 1) 4294967295) = 0"
  "float_to_int (clip_value (PyInt (- 1)) (- 1) 4294967295) = - 1"
  by (simp_all add: clip_value_def float_to_int_def)

lemma tts_generate_example:
  assumes "f64_convertible seed"
  shows "tts_generate example_env (example_args\<lparr>a_infer_seed := seed, a_temperature := t\<rparr>) =
     ([Ev_calc_spk_style 7 (Some []), Ev_text_normalize (ustr ''hi''),
       Ev_synthesize_audio (example_call (float_to_int (clip_value seed (- 1) (2 ^ 32 - 1))) t),
       Ev_apply_audio_enhance 24000 False False, Ev_audio_to_int16],
      Inr (Some (24000, 1)))"
proof -
  have 1: "py_slice_to (ustr ''hi'') 1000 = ustr ''hi''"
    by (simp add: py_slice_to_def ustr_def)
  have 2: "ustr ''hi'' \<noteq> []" "[] \<noteq> ustr ''*auto''"
    by (simp_all add: ustr_def)
  from assms show ?thesis
    by (simp add: tts_generate_def example_env_def example_args_def example_call_def
        try_except_Exception_def py_strip_hi 1 2 Let_def dict_get_def num_or_same str_or_same
        np_clip_def apply_audio_enhance_def and_then_def calls_def returns_def)
qed


lemma tts_generate_example_batch_size:
  "fst (tts_generate example_env (example_args\<lparr>a_batch_size := PyNone\<rparr>)) =
     [Ev_calc_spk_style 7 (Some []), Ev_text_normalize (ustr ''hi''),
      Ev_synthesize_audio (example_call (- 1) (PyFloat (3 / 10))),
      Ev_apply_audio_enhance 24000 False False, Ev_audio_to_int16]"
proof -
  have 1: "py_slice_to (ustr ''hi'') 1000 = ustr ''hi''"
    by (simp add: py_slice_to_def ustr_def)
  have 2: "ustr ''hi'' \<noteq> []" "[] \<noteq> ustr ''*auto''"
    by (simp_all add: ustr_def)
  show ?thesis
    by (simp add: tts_generate_def example_env_def example_args_def example_call_def
        try_except_Exception_def py_strip_hi 1 2 seed_values Let_def dict_get_def
        num_or_same str_or_same np_clip_def apply_audio_enhance_def and_then_def calls_def
        returns_def)
qed

lemma tts_generate_example_truncating:
  "fst (tts_generate (example_env\<lparr>tts_max := 3\<rparr>) (example_args\<lparr>a_text := ustr ''  hello  ''\<rparr>)) =
     [Ev_calc_spk_style 7 (Some []), Ev_text_normalize (ustr ''hel''),
      Ev_synthesize_audio ((example_call (- 1) (PyFloat (3 / 10)))\<lparr>s_text := ustr ''hel''\<rparr>),
      Ev_apply_audio_enhance 24000 False False, Ev_audio_to_int16]"
proof -
  have 2: "ustr ''hel'' \<noteq> []" "[] \<noteq> ustr ''*auto''"
    by (simp_all add: ustr_def)
  show ?thesis
    by (simp add: tts_generate_def example_env_def example_args_def example_call_def
        try_except_Exception_def py_strip_hello py_slice_to_hello 2 seed_values Let_def
        dict_get_def num_or_same str_or_same np_clip_def
        apply_audio_enhance_def and_then_def calls_def returns_def)
qed

section \<open>Properties of \<open>synthesize_ssml\<close> and \<open>tts_generate\<close>\<close>

text \<open>
  C2. A \<open>batch_size\<close> whose conversion to an integer raises is replaced without an
  exception, and synthesis goes on with the replacement. The replacement is the default
  of the signature in \<open>tts_generate\<close> (4), but not in \<open>synthesize_ssml\<close>: there the
  \<open>except\<close> branch assigns 8, and the signature says 4. Evaluated on
  \<open>batch_size = None\<close>: \<open>int(None)\<close> raises \<open>TypeError\<close>, \<open>synthesize_ssml\<close> builds
  \<open>SynthesizeSegments\<close> with batch size 8, and \<open>tts_generate\<close> calls
  \<open>synthesize_audio\<close> with batch size 4.
\<close>

theorem synthesize_ssml_fallback_batch_size:
  "py_int (int_of_str example_env) PyNone = Inl TypeError \<and>
   fst (synthesize_ssml example_env (ustr ''hello'') PyNone False False (ustr ''[uv_break]'') 100) =
     [Ev_parse (ustr ''hello''),
      Ev_synthesize_segments 8 (ustr ''[uv_break]'') 100 [SSMLSegment (ustr ''hello'') []],
      Ev_combine_audio_segments, Ev_audiosegment_to_librosawav,
      Ev_apply_audio_enhance 24000 False False, Ev_audio_to_int16] \<and>
   synthesize_ssml_default_batch_size = 4 \<and>
   Ev_synthesize_audio (example_call (- 1) (PyFloat (3 / 10))) \<in>
     set (fst (tts_generate example_env (example_args\<lparr>a_batch_size := PyNone\<rparr>))) \<and>
   s_batch_size (example_call (- 1) (PyFloat (3 / 10))) = tts_generate_default_batch_size"
proof -
  have 1: "ustr ''hello'' \<noteq> []" by (simp add: ustr_def)
  have 2: "segments_length_limit [SSMLSegment (ustr ''hello'') []] 1000 = [SSMLSegment (ustr ''hello'') []]"
    by (simp add: segments_length_limit_def ustr_def)
  have "fst (synthesize_ssml example_env (ustr ''hello'') PyNone False False (ustr ''[uv_break]'') 100) =
     [Ev_parse (ustr ''hello''),
      Ev_synthesize_segments 8 (ustr ''[uv_break]'') 100 [SSMLSegment (ustr ''hello'') []],
      Ev_combine_audio_segments, Ev_audiosegment_to_librosawav,
      Ev_apply_audio_enhance 24000 False False, Ev_audio_to_int16]"
    by (simp add: synthesize_ssml_def example_env_def try_except_Exception_def
        py_strip_hello_plain 1 2 Let_def apply_audio_enhance_def and_then_def calls_def
        returns_def)
  moreover have "py_int (int_of_str example_env) PyNone = Inl TypeError"
    by simp
  moreover have "synthesize_ssml_default_batch_size = 4"
    by (simp add: synthesize_ssml_default_batch_size_def)
  moreover have "Ev_synthesize_audio (example_call (- 1) (PyFloat (3 / 10))) \<in>
     set (fst (tts_generate example_env (example_args\<lparr>a_batch_size := PyNone\<rparr>)))"
    by (simp add: tts_generate_example_batch_size)
  moreover have "s_batch_size (example_call (- 1) (PyFloat (3 / 10))) = tts_generate_default_batch_size"
    by (simp add: example_call_def tts_generate_default_batch_size_def)
  ultimately show ?thesis by (intro conjI)
qed




text \<open>
  C4. The text of \<open>tts_generate\<close> is stripped of surrounding whitespace and cut to at
  most \<open>webui_config.tts_max\<close> characters before anything else happens to it: the
  stripped text is the input without a whitespace prefix and suffix, and does not begin
  or end with whitespace; the cut text is what \<open>text_normalize\<close> receives, and what
  \<open>synthesize_audio\<close> receives when normalization is disabled (its normalized form
  otherwise). For a maximum that is not negative, its length is at most the maximum.
\<close>

theorem tts_generate_text_truncated:
  assumes "0 \<le> tts_max env"
  shows "int (length (py_slice_to (py_strip (a_text a)) (tts_max env))) \<le> tts_max env \<and>
     (\<exists>l r. a_text a = l @ py_strip (a_text a) @ r \<and> list_all py_isspace l \<and> list_all py_isspace r) \<and>
     (py_strip (a_text a) \<noteq> [] \<longrightarrow>
        \<not> py_isspace (hd (py_strip (a_text a))) \<and> \<not> py_isspace (last (py_strip (a_text a)))) \<and>
     (\<forall>t. Ev_text_normalize t \<in> set (fst (tts_generate env a)) \<longrightarrow>
        t = py_slice_to (py_strip (a_text a)) (tts_max env)) \<and>
     (\<forall>sa. Ev_synthesize_audio sa \<in> set (fst (tts_generate env a)) \<longrightarrow>
        (if a_disable_normalize a
         then s_text sa = py_slice_to (py_strip (a_text a)) (tts_max env)
         else text_normalize env (py_slice_to (py_strip (a_text a)) (tts_max env)) = Inr (s_text sa)))"
proof (intro conjI allI impI)
  show "int (length (py_slice_to (py_strip (a_text a)) (tts_max env))) \<le> tts_max env"
    using assms by (rule py_slice_to_length)
  show "\<exists>l r. a_text a = l @ py_strip (a_text a) @ r \<and> list_all py_isspace l \<and> list_all py_isspace r"
    by (rule py_strip_decomp)
next
  assume "py_strip (a_text a) \<noteq> []"
  then have "\<not> py_isspace (hd (py_strip (a_text a))) \<and> \<not> py_isspace (last (py_strip (a_text a)))"
    by (rule py_strip_ends)
  then show "\<not> py_isspace (hd (py_strip (a_text a)))" "\<not> py_isspace (last (py_strip (a_text a)))"
    by (rule conjunct1, rule conjunct2)
next
  fix t assume "Ev_text_normalize t \<in> set (fst (tts_generate env a))"
  then show "t = py_slice_to (py_strip (a_text a)) (tts_max env)"
    by (rule tts_generate_normalize_event [THEN conjunct1])
next
  fix sa assume "Ev_synthesize_audio sa \<in> set (fst (tts_generate env a))"
  then show "if a_disable_normalize a
         then s_text sa = py_slice_to (py_strip (a_text a)) (tts_max env)
         else text_normalize env (py_slice_to (py_strip (a_text a)) (tts_max env)) = Inr (s_text sa)"
    by (rule tts_generate_synth_text)
qed

theorem tts_generate_text_truncated_witness:
  "0 \<le> tts_max (example_env\<lparr>tts_max := 3\<rparr>) \<and>
   py_slice_to (py_strip (a_text (example_args\<lparr>a_text := ustr ''  hello  ''\<rparr>)))
     (tts_max (example_env\<lparr>tts_max := 3\<rparr>)) = ustr ''hel'' \<and>
   int (length (ustr ''hel'')) \<le> tts_max (example_env\<lparr>tts_max := 3\<rparr>) \<and>
   Ev_text_normalize (ustr ''hel'') \<in> set (fst (tts_generate (example_env\<lparr>tts_max := 3\<rparr>)
     (example_args\<lparr>a_text := ustr ''  hello  ''\<rparr>)))"
proof -
  let ?E = "example_env\<lparr>tts_max := 3\<rparr>"
  let ?A = "example_args\<lparr>a_text := ustr ''  hello  ''\<rparr>"
  have h: "0 \<le> tts_max ?E" by simp
  have t: "py_slice_to (py_strip (a_text ?A)) (tts_max ?E) = ustr ''hel''"
    by (simp add: py_strip_hello py_slice_to_hello)
  have "int (length (py_slice_to (py_strip (a_text ?A)) (tts_max ?E))) \<le> tts_max ?E"
    using tts_generate_text_truncated [OF h, of ?A] by (rule conjunct1)
  then have "int (length (ustr ''hel'')) \<le> tts_max ?E"
    by (simp only: t)
  moreover have "Ev_text_normalize (ustr ''hel'') \<in> set (fst (tts_generate ?E ?A))"
    by (simp add: tts_generate_example_truncating)
  ultimately show ?thesis using h t by (intro conjI)
qed

text \<open>
  C5. \<open>tts_generate\<close> and \<open>synthesize_ssml\<close> return \<open>None\<close> or a pair of a sample
  rate and the buffer returned by \<open>audio_to_int16\<close>. When the text (the SSML) is empty
  after \<open>strip()\<close>, the result is \<open>None\<close> and no other module has been called: neither
  the parser nor synthesis.
\<close>

theorem empty_input_returns_None:
  "(py_strip (a_text a) = [] \<longrightarrow> tts_generate env a = ([], Inr None)) \<and>
   (py_strip ssml = [] \<longrightarrow>
      synthesize_ssml env ssml batch_size enable_enhance enable_denoise eos spliter_thr = ([], Inr None)) \<and>
   (\<forall>r. snd (tts_generate env a) = Inr r \<longrightarrow>
      (case r of None \<Rightarrow> True | Some (sr, buf) \<Rightarrow> \<exists>x. audio_to_int16 env x = Inr buf)) \<and>
   (\<forall>r. snd (synthesize_ssml env ssml batch_size enable_enhance enable_denoise eos spliter_thr) = Inr r \<longrightarrow>
      (case r of None \<Rightarrow> True | Some (sr, buf) \<Rightarrow> \<exists>x. audio_to_int16 env x = Inr buf))"
proof (intro conjI allI impI)
  assume "py_strip (a_text a) = []"
  then show "tts_generate env a = ([], Inr None)" by (rule tts_generate_blank)
next
  assume "py_strip ssml = []"
  then show "synthesize_ssml env ssml batch_size enable_enhance enable_denoise eos spliter_thr = ([], Inr None)"
    by (rule synthesize_ssml_blank)
next
  fix r assume "snd (tts_generate env a) = Inr r"
  then show "case r of None \<Rightarrow> True | Some (sr, buf) \<Rightarrow> \<exists>x. audio_to_int16 env x = Inr buf"
    by (cases r) (auto dest: tts_generate_result)
next
  fix r assume "snd (synthesize_ssml env ssml batch_size enable_enhance enable_denoise eos spliter_thr) = Inr r"
  then show "case r of None \<Rightarrow> True | Some (sr, buf) \<Rightarrow> \<exists>x. audio_to_int16 env x = Inr buf"
    by (cases r) (auto dest: synthesize_ssml_result)
qed

theorem empty_input_returns_None_witness:
  "py_strip (a_text (example_args\<lparr>a_text := [32, 10, 9]\<rparr>)) = [] \<and>
   tts_generate example_env (example_args\<lparr>a_text := [32, 10, 9]\<rparr>) = ([], Inr None) \<and>
   synthesize_ssml example_env [32, 10, 9] (PyNum (PyInt 4)) False False (ustr ''[uv_break]'') 100 =
     ([], Inr None) \<and>
   snd (tts_generate example_env
     (example_args\<lparr>a_infer_seed := PyInt 42, a_temperature := PyFloat (3 / 10)\<rparr>)) =
     Inr (Some (24000, 1)) \<and>
   (\<exists>x. audio_to_int16 example_env x = Inr 1)"
proof -
  let ?A = "example_args\<lparr>a_text := [32, 10, 9]\<rparr>"
  let ?B = "example_args\<lparr>a_infer_seed := PyInt 42, a_temperature := PyFloat (3 / 10)\<rparr>"
  have blank: "py_strip (a_text ?A) = []" by (simp add: py_strip_blank)
  have ret: "snd (tts_generate example_env ?B) = Inr (Some (24000, 1))"
    by (simp add: tts_generate_example)
  note inst = empty_input_returns_None [of ?A example_env "[32, 10, 9]" "PyNum (PyInt 4)" False False
      "ustr ''[uv_break]''" 100]
  from inst blank have 1: "tts_generate example_env ?A = ([], Inr None)" by blast
  from inst py_strip_blank have 2:
    "synthesize_ssml example_env [32, 10, 9] (PyNum (PyInt 4)) False False (ustr ''[uv_break]'') 100 =
       ([], Inr None)" by blast
  from empty_input_returns_None [of ?B example_env "[32, 10, 9]" "PyNum (PyInt 4)" False False
      "ustr ''[uv_break]''" 100] ret
  have 3: "\<exists>x. audio_to_int16 example_env x = Inr 1" by auto
  from blank 1 2 ret 3 show ?thesis by (intro conjI)
qed

text \<open>
  Against C9 as it is stated ("a caller can never actually request temperature 0 or
  seed 0"): a caller of \<open>tts_generate\<close> passes temperature 0 and seed 0, and the style
  has neither a temperature nor a seed; \<open>synthesize_audio\<close> is called with temperature
  0 and seed 0.
\<close>

theorem tts_generate_zero_seed_and_temperature:
  "Ev_synthesize_audio (example_call 0 (PyFloat 0)) \<in>
     set (fst (tts_generate example_env
       (example_args\<lparr>a_infer_seed := PyInt 0, a_temperature := PyFloat 0\<rparr>))) \<and>
   s_temperature (example_call 0 (PyFloat 0)) = PyFloat 0 \<and>
   s_infer_seed (example_call 0 (PyFloat 0)) = 0"
  by (simp add: tts_generate_example seed_values example_call_def)

text \<open>
  C9, as the code has it. In \<open>tts_generate\<close> a falsy explicit argument is replaced by
  the value that \<open>calc_spk_style\<close> returned under its key when the key is present.
  When the key is absent, temperature, seed and prefix stay as the caller gave them
  (\<open>params.get(key, argument)\<close>), and \<open>prompt1\<close> and \<open>prompt2\<close> become the empty string.
  The seed then goes through the clamp.
\<close>

theorem tts_generate_falsy_arguments:
  fixes env :: "('spk, 'file, 'audio) env"
  assumes "Ev_synthesize_audio sa \<in> set (fst (tts_generate env a))"
  shows "\<exists>params.
     calc_spk_style env (a_spk a)
       (if a_style a = ustr ''*auto'' then None else Some (a_style a)) = Inr params \<and>
     s_temperature sa =
       (if num_truthy (a_temperature a) then a_temperature a
        else case p_temperature params of Some v \<Rightarrow> v | None \<Rightarrow> a_temperature a) \<and>
     s_infer_seed sa = float_to_int (clip_value
       (if num_truthy (a_infer_seed a) then a_infer_seed a
        else case p_seed params of Some v \<Rightarrow> v | None \<Rightarrow> a_infer_seed a) (- 1) (2 ^ 32 - 1)) \<and>
     s_prefix sa =
       (if a_prefix a \<noteq> [] then a_prefix a
        else case p_prefix params of Some v \<Rightarrow> v | None \<Rightarrow> []) \<and>
     s_prompt1 sa =
       (if a_prompt1 a \<noteq> [] then a_prompt1 a
        else case p_prompt1 params of Some v \<Rightarrow> v | None \<Rightarrow> []) \<and>
     s_prompt2 sa =
       (if a_prompt2 a \<noteq> [] then a_prompt2 a
        else case p_prompt2 params of Some v \<Rightarrow> v | None \<Rightarrow> [])"
proof -
  from tts_generate_synth_event [OF assms] obtain params :: "'spk style_params" where
    p: "calc_spk_style env (a_spk a)
          (if a_style a = ustr ''*auto'' then None else Some (a_style a)) = Inr params"
    "s_infer_seed sa = float_to_int (clip_value
        (num_or (a_infer_seed a) (dict_get (p_seed params) (a_infer_seed a))) (- 1) (2 ^ 32 - 1))"
    "s_temperature sa = num_or (a_temperature a) (dict_get (p_temperature params) (a_temperature a))"
    "s_prefix sa = str_or (a_prefix a) (dict_get (p_prefix params) (a_prefix a))"
    "s_prompt1 sa = str_or (a_prompt1 a) (dict_get (p_prompt1 params) [])"
    "s_prompt2 sa = str_or (a_prompt2 a) (dict_get (p_prompt2 params) [])"
    by blast
  have "s_prefix sa =
       (if a_prefix a \<noteq> [] then a_prefix a
        else case p_prefix params of Some v \<Rightarrow> v | None \<Rightarrow> [])"
    unfolding p(4) by (simp add: str_or_def dict_get_def split: option.splits)
  with p show ?thesis
    unfolding num_or_def str_or_def dict_get_def by (intro exI[of _ params]) simp
qed

theorem tts_generate_falsy_arguments_witness:
  "\<exists>params.
     calc_spk_style example_env 7 (Some []) = Inr params \<and>
     p_temperature params = None \<and> p_seed params = None \<and>
     s_temperature (example_call 0 (PyFloat 0)) = PyFloat 0 \<and>
     s_infer_seed (example_call 0 (PyFloat 0)) = float_to_int (clip_value (PyInt 0) (- 1) (2 ^ 32 - 1))"
proof -
  let ?A = "example_args\<lparr>a_infer_seed := PyInt 0, a_temperature := PyFloat 0\<rparr>"
  have ev: "Ev_synthesize_audio (example_call 0 (PyFloat 0)) \<in> set (fst (tts_generate example_env ?A))"
    by (simp add: tts_generate_example seed_values)
  have "[] \<noteq> ustr ''*auto''" by (simp add: ustr_def)
  with tts_generate_falsy_arguments [OF ev] show ?thesis
    by (simp add: example_args_def example_env_def)
qed

text \<open>
  C10. When the SSML is not blank and the parsed segments, limited to
  \<open>webui_config.ssml_max\<close>, are the empty list, \<open>synthesize_ssml\<close> returns \<open>None\<close>;
  the parser is the only module that has been called.
\<close>

theorem synthesize_ssml_no_segments:
  assumes "py_strip ssml \<noteq> []"
      and "ssml_parse env (py_strip ssml) = Inr segments"
      and "segments_length_limit segments (ssml_max env) = []"
  shows "synthesize_ssml env ssml batch_size enable_enhance enable_denoise eos spliter_thr =
           ([Ev_parse (py_strip ssml)], Inr None)"
  using assms
  unfolding synthesize_ssml_def try_py_int
  by (simp add: and_then_def returns_def calls_def)

theorem synthesize_ssml_no_segments_witness:
  "py_strip (ustr ''  hello  '') \<noteq> [] \<and>
   ssml_parse (example_env\<lparr>ssml_max := 3\<rparr>) (py_strip (ustr ''  hello  '')) =
     Inr [SSMLSegment (ustr ''hello'') []] \<and>
   segments_length_limit [SSMLSegment (ustr ''hello'') []] (ssml_max (example_env\<lparr>ssml_max := 3\<rparr>)) = [] \<and>
   synthesize_ssml (example_env\<lparr>ssml_max := 3\<rparr>) (ustr ''  hello  '') (PyNum (PyInt 4)) False False
       (ustr ''[uv_break]'') 100 = ([Ev_parse (ustr ''hello'')], Inr None)"
proof -
  let ?E = "example_env\<lparr>ssml_max := 3\<rparr>"
  have 1: "py_strip (ustr ''  hello  '') \<noteq> []"
    by (simp add: py_strip_hello) (simp add: ustr_def)
  have 2: "ssml_parse ?E (py_strip (ustr ''  hello  '')) = Inr [SSMLSegment (ustr ''hello'') []]"
    by (simp add: py_strip_hello example_env_def)
  have 3: "segments_length_limit [SSMLSegment (ustr ''hello'') []] (ssml_max ?E) = []"
    by (simp add: segments_length_limit_def ustr_def)
  from synthesize_ssml_no_segments [OF 1 2 3, of "PyNum (PyInt 4)" False False "ustr ''[uv_break]''" 100]
  have "synthesize_ssml ?E (ustr ''  hello  '') (PyNum (PyInt 4)) False False
       (ustr ''[uv_break]'') 100 = ([Ev_parse (ustr ''hello'')], Inr None)"
    by (simp only: py_strip_hello)
  with 1 2 3 show ?thesis by (intro conjI)
qed

section \<open>Properties of \<open>load_spk_info\<close>\<close>

lemma try_except_all_returns:
  "\<exists>evs v. try_except_all body dflt = (evs, Inr v)"
  by (cases body; cases "snd body") (auto simp: try_except_all_def)

lemma snd_try_except_all:
  "snd (try_except_all body dflt) = Inr (case snd body of Inr v \<Rightarrow> v | Inl e \<Rightarrow> dflt)"
  by (cases body; cases "snd body") (auto simp: try_except_all_def)

lemma snd_getattr:
  "snd (getattr field) = (case field of Some v \<Rightarrow> Inr v | None \<Rightarrow> Inl AttributeError)"
  by (simp add: getattr_def returns_def split: option.splits)

lemma load_spk_info_returns:
  "\<exists>evs s. load_spk_info env file = (evs, Inr s)"
  by (cases "file") (simp_all add: load_spk_info_def returns_def try_except_all_returns)

lemma load_spk_info_failed:
  assumes "loading_raises env f"
  shows "snd (load_spk_info env (Some f)) = Inr (ustr ''load failed'')"
  using assms
  by (auto simp: load_spk_info_def loading_raises_def snd_try_except_all snd_and_then snd_calls
      snd_getattr snd_returns split: sum.splits option.splits)

text \<open>
  C6. \<open>load_spk_info\<close> never lets an exception out: it always returns a string. For
  \<open>None\<close> the string is \<open>empty\<close>, and whenever loading the speaker raises, it is
  \<open>load failed\<close>.
\<close>

theorem load_spk_info_never_raises:
  "load_spk_info env None = ([], Inr (ustr ''empty'')) \<and>
   (\<exists>evs s. load_spk_info env file = (evs, Inr s)) \<and>
   (loading_raises env f \<longrightarrow> snd (load_spk_info env (Some f)) = Inr (ustr ''load failed''))"
proof (intro conjI impI)
  show "load_spk_info env None = ([], Inr (ustr ''empty''))"
    by (simp add: load_spk_info_def returns_def)
  show "\<exists>evs s. load_spk_info env file = (evs, Inr s)"
    by (rule load_spk_info_returns)
next
  assume "loading_raises env f"
  then show "snd (load_spk_info env (Some f)) = Inr (ustr ''load failed'')"
    by (rule load_spk_info_failed)
qed

theorem load_spk_info_never_raises_witness:
  "loading_raises example_env 0 \<and>
   snd (load_spk_info example_env (Some 0)) = Inr (ustr ''load failed'') \<and>
   load_spk_info example_env None = ([], Inr (ustr ''empty''))"
proof -
  have 1: "loading_raises example_env 0"
    by (simp add: loading_raises_def example_env_def)
  from load_spk_info_never_raises [of example_env "None" 0] 1 show ?thesis
    by blast
qed

section \<open>Properties of \<open>split_long_text\<close>\<close>

lemma for_each_calls:
  "map f xs = map Inr ys \<Longrightarrow>
   for_each (\<lambda>x. calls (ev x) (f x)) xs = (map ev xs, Inr ys)"
proof (induction xs arbitrary: ys)
  case Nil
  then show ?case by (simp add: returns_def)
next
  case (Cons x xs)
  then obtain y ys' where ys: "ys = y # ys'" "f x = Inr y" "map f xs = map Inr ys'"
    by (cases ys) auto
  from Cons.IH [OF ys(3)] ys show ?case
    by (simp add: and_then_def calls_def returns_def)
qed

lemma rows_loop_eq:
  "rows_loop ps data = data @ map (\<lambda>(i, t). (int i, t, int (length t))) ps"
  by (induction ps data rule: rows_loop.induct) simp_all

text \<open>
  C7. When the splitter returns sentences and each of them is normalized,
  \<open>split_long_text\<close> returns one row per sentence, and row \<open>i\<close> is
  \<open>[i, s, len(s)]\<close> for the \<open>i\<close>-th normalized sentence \<open>s\<close>.
\<close>

theorem split_long_text_rows:
  fixes env :: "('spk, 'file, 'audio) env"
  assumes "sentence_split env (spliter_threshold env) long_text_input = Inr sentences"
      and "map (text_normalize env) sentences = map Inr normalized"
  shows "\<exists>evs rows. split_long_text env long_text_input = (evs, Inr rows) \<and>
           length rows = length normalized \<and>
           (\<forall>i<length normalized.
              rows ! i = (int i, normalized ! i, int (length (normalized ! i))))"
proof -
  let ?rows = "map (\<lambda>(i, t). (int i, t, int (length t))) (enumerate 0 normalized)"
  have fe: "for_each (\<lambda>s. calls (Ev_text_normalize s) (text_normalize env s)) sentences =
          (map Ev_text_normalize sentences :: 'spk event list, Inr normalized)"
    using assms(2) by (rule for_each_calls)
  have "split_long_text env long_text_input =
          (Ev_sentence_split (spliter_threshold env) long_text_input # map Ev_text_normalize sentences,
           Inr ?rows)"
    unfolding split_long_text_def Let_def assms(1) and_then_calls_Inr fe and_then_Pair_Inr
    by (simp add: returns_def rows_loop_eq)
  moreover have "length ?rows = length normalized" by simp
  moreover have "\<forall>i<length normalized.
      ?rows ! i = (int i, normalized ! i, int (length (normalized ! i)))"
    by (simp add: nth_enumerate_eq)
  ultimately show ?thesis by blast
qed

theorem split_long_text_rows_witness:
  "\<exists>evs rows. split_long_text example_env (ustr ''ab'') = (evs, Inr rows) \<and>
      length rows = 2 \<and> rows ! 0 = (0, ustr ''ab'', 2) \<and> rows ! 1 = (1, ustr ''abab'', 4)"
proof -
  have 1: "sentence_split example_env (spliter_threshold example_env) (ustr ''ab'') =
             Inr [ustr ''ab'', ustr ''abab'']"
    by (simp add: example_env_def ustr_def)
  have 2: "map (text_normalize example_env) [ustr ''ab'', ustr ''abab''] =
             map Inr [ustr ''ab'', ustr ''abab'']"
    by (simp add: example_env_def)
  from split_long_text_rows [OF 1 2] obtain evs rows where
    r: "split_long_text example_env (ustr ''ab'') = (evs, Inr rows)"
       "length rows = length [ustr ''ab'', ustr ''abab'']"
       "\<forall>i<length [ustr ''ab'', ustr ''abab''].
          rows ! i = (int i, [ustr ''ab'', ustr ''abab''] ! i, int (length ([ustr ''ab'', ustr ''abab''] ! i)))"
    by blast
  from r(3) have "rows ! 0 = (0, ustr ''ab'', 2)"
    by (simp add: ustr_def)
  moreover from r(3) have "rows ! 1 = (1, ustr ''abab'', 4)"
    by (simp add: ustr_def)
  moreover from r(2) have "length rows = 2" by simp
  ultimately show ?thesis using r(1) by blast
qed

end
